theory Spec2Isabelle
  imports Complex_Main
begin

section \<open>Data model of the exercise-order settlement workflow\<close>

text \<open>
  The handlers of \<^verbatim>\<open>src/pages/ExerciseOrders.tsx\<close> and
  \<^verbatim>\<open>src/pages/EmployeeVestingEvents.tsx\<close> run against tables of a relational store.
  A table is the list of its rows; a handler takes the store and returns the store it
  leaves behind together with its outcome, so that a handler that stops half way returns
  the half-updated store.

  Quantities (cash, shares, prices) are the decimal values of \<^verbatim>\<open>numeric\<close> columns
  and are rationals here; a nullable column is an \<open>option\<close>. The handlers compute on
  them with JavaScript numbers and the store rounds what it is given to the scale of the
  column: a sum or a difference of two amounts of \<^verbatim>\<open>numeric(15,2)\<close> comes back as the
  exact decimal, which is what the rationals give; for a product of a quantity and a price
  of \<^verbatim>\<open>numeric(15,4)\<close> that need not be so, and nothing below rests on a product being
  exact. Row identifiers are strings. The text typed into the rejection form is a list of
  UTF-16 code units.
\<close>

text \<open>
  The equations that a run on a concrete store unfolds: those of the handlers and of
  the requests to the store, those of the example ledgers, and those of the observations.
\<close>

named_theorems model_defs
named_theorems ledger_defs
named_theorems observation_defs

type_synonym uuid = string
type_synonym timestamp = nat
type_synonym js_string = "nat list"

datatype portfolio_type = Company_reserved | Employee_vested | Company_cash | Employee_cash

datatype order_status = Pending | Approved | Rejected | Processed | Cancelled

datatype vesting_event_status =
  Ve_pending | Due | Pending_exercise | Vested | Exercised | Transferred | Forfeited | Ve_cancelled

datatype cash_transfer_type = Company_deposit | Employee_deposit | Exercise_settlement

datatype cash_transfer_status = Ct_pending | Ct_approved | Ct_rejected | Ct_processed

datatype share_transfer_type = Vesting | Forfeiture | Exercise | Cancellation

record portfolio =
  pf_id :: uuid
  portfolio_type :: portfolio_type
  pf_company_id :: uuid
  pf_employee_id :: "uuid option"
  portfolio_number :: string
  total_shares :: "rat option"
  available_shares :: "rat option"
  locked_shares :: "rat option"
  cash_balance :: "rat option"
  currency :: "string option"
  pf_updated_at :: "timestamp option"

record exercise_order =
  eo_id :: uuid
  order_number :: string
  eo_company_id :: uuid
  eo_employee_id :: uuid
  vesting_event_id :: uuid
  eo_grant_id :: uuid
  shares_to_exercise :: rat
  exercise_price_per_share :: rat
  total_exercise_cost :: rat
  cash_portfolio_id :: "uuid option"
  cash_balance_at_order :: "rat option"
  sufficient_funds :: bool
  eo_status :: order_status
  eo_processed_at :: "timestamp option"
  processed_by :: "uuid option"
  rejection_reason :: "js_string option"
  eo_updated_at :: "timestamp option"

record cash_transfer =
  ct_transfer_number :: string
  ct_company_id :: uuid
  ct_transfer_type :: cash_transfer_type
  ct_from_portfolio_id :: "uuid option"
  ct_to_portfolio_id :: "uuid option"
  ct_employee_id :: "uuid option"
  exercise_order_id :: "uuid option"
  amount :: rat
  ct_currency :: string
  ct_status :: cash_transfer_status
  description :: string
  created_by :: uuid

record share_transfer =
  st_transfer_number :: string
  st_company_id :: uuid
  st_grant_id :: uuid
  st_employee_id :: uuid
  st_from_portfolio_id :: uuid
  st_to_portfolio_id :: uuid
  shares_transferred :: rat
  st_transfer_type :: share_transfer_type
  transfer_date :: nat
  st_processed_at :: timestamp
  processed_by_system :: bool
  st_notes :: string

record vesting_event =
  ve_id :: uuid
  ve_grant_id :: uuid
  ve_employee_id :: uuid
  shares_to_vest :: rat
  exercise_price :: "rat option"
  requires_exercise :: bool
  ve_status :: vesting_event_status
  ve_updated_at :: "timestamp option"

record grant =
  g_id :: uuid
  g_company_id :: "uuid option"
  g_employee_id :: uuid

record employee =
  em_id :: uuid
  em_company_id :: uuid
  em_user_id :: "uuid option"
  employee_number :: "string option"

record db =
  portfolios :: "portfolio list"
  exercise_orders :: "exercise_order list"
  cash_transfers :: "cash_transfer list"
  share_transfers :: "share_transfer list"
  vesting_events :: "vesting_event list"
  grants :: "grant list"
  employees :: "employee list"

subsection \<open>What a handler gets from outside\<close>

text \<open>
  Every request to the store can come back with an error (network, row-level security,
  a column overflow): \<open>store_fails\<close> says which ones do, and a request that fails
  changes nothing. \<open>auth_user\<close> is \<^verbatim>\<open>supabase.auth.getUser()\<close>, \<open>confirm\<close> the answer
  to \<^verbatim>\<open>window.confirm\<close>, \<open>now\<close> the clock in milliseconds, read once for the whole
  call, \<open>new_id\<close> the identifier the store generates for an inserted row.
\<close>

datatype store_call =
  Select_grant | Select_cash_portfolios | Update_employee_cash | Update_company_cash
| Insert_cash_transfer | Select_share_portfolios | Select_employee | Insert_portfolio
| Update_from_portfolio | Update_to_portfolio | Insert_share_transfer
| Update_order | Update_event | Insert_order | Select_employee_of_user

record env =
  auth_user :: "uuid option"
  confirm :: bool
  now :: nat
  new_id :: uuid
  store_fails :: "store_call \<Rightarrow> bool"

datatype error =
  User_not_found
| Grant_not_found
| Employee_cash_portfolio_not_found
| Company_cash_portfolio_not_found
| Insufficient_cash_balance
| Company_reserved_portfolio_not_found
| Insufficient_shares
| Rejection_reason_required
| Insufficient_funds
| Store_error store_call

text \<open>
  \<open>Done\<close>: the handler reached its success alert. \<open>Returned\<close>: it returned early
  without a message. \<open>Failed e\<close>: it stopped with the alert or the thrown error \<open>e\<close>.
\<close>

datatype outcome = Done | Returned | Failed error

subsection \<open>JavaScript coercions the handlers rely on\<close>

text \<open>
  \<^verbatim>\<open>v || 0\<close> on a number or \<^verbatim>\<open>null\<close>/\<^verbatim>\<open>undefined\<close>, and the
  conversion of \<^verbatim>\<open>null\<close> to \<open>0\<close> in \<^verbatim>\<open><\<close> and \<^verbatim>\<open>-\<close>.
\<close>

definition js_num :: "rat option \<Rightarrow> rat" where
  "js_num v = (case v of None \<Rightarrow> 0 | Some x \<Rightarrow> x)"

text \<open>\<^verbatim>\<open>s || t\<close> on strings: the empty string and \<^verbatim>\<open>null\<close> are falsy.\<close>

definition js_or :: "string option \<Rightarrow> string \<Rightarrow> string" where
  [model_defs]:
  "js_or s t = (case s of None \<Rightarrow> t | Some x \<Rightarrow> if x = [] then t else x)"

text \<open>White space and line terminators of ECMAScript, as code units.\<close>

definition js_whitespace :: "nat \<Rightarrow> bool" where
  "js_whitespace c \<longleftrightarrow>
     c = 9 \<or> c = 10 \<or> c = 11 \<or> c = 12 \<or> c = 13 \<or> c = 32 \<or> c = 160 \<or> c = 5760
   \<or> (8192 \<le> c \<and> c \<le> 8202) \<or> c = 8232 \<or> c = 8233 \<or> c = 8239 \<or> c = 8287
   \<or> c = 12288 \<or> c = 65279"

definition trim :: "js_string \<Rightarrow> js_string" where
  "trim s = rev (dropWhile js_whitespace (rev (dropWhile js_whitespace s)))"

text \<open>\<^verbatim>\<open>Date.now()\<close> inside a template string: the decimal digits of a number.\<close>

function decimal :: "nat \<Rightarrow> string" where
  "decimal n =
     (if n < 10 then [''0123456789'' ! n]
      else decimal (n div 10) @ [''0123456789'' ! (n mod 10)])"
  by pat_completeness auto
termination
  by (relation "measure id") auto

declare decimal.simps [simp del]

subsection \<open>Requests to the store\<close>

text \<open>\<^verbatim>\<open>.update(...).eq('id', i)\<close>: every row with that identifier is rewritten.\<close>

definition update_portfolios :: "uuid \<Rightarrow> (portfolio \<Rightarrow> portfolio) \<Rightarrow> db \<Rightarrow> db" where
  [model_defs]:
  "update_portfolios i f d =
     d\<lparr>portfolios := map (\<lambda>p. if pf_id p = i then f p else p) (portfolios d)\<rparr>"

definition update_orders :: "uuid \<Rightarrow> (exercise_order \<Rightarrow> exercise_order) \<Rightarrow> db \<Rightarrow> db" where
  [model_defs]:
  "update_orders i f d =
     d\<lparr>exercise_orders := map (\<lambda>x. if eo_id x = i then f x else x) (exercise_orders d)\<rparr>"

definition update_events :: "uuid \<Rightarrow> (vesting_event \<Rightarrow> vesting_event) \<Rightarrow> db \<Rightarrow> db" where
  [model_defs]:
  "update_events i f d =
     d\<lparr>vesting_events := map (\<lambda>x. if ve_id x = i then f x else x) (vesting_events d)\<rparr>"

text \<open>
  \<^verbatim>\<open>.eq('id', i).single()\<close> on \<^verbatim>\<open>grants\<close>: the row and no error when exactly one row
  matches, no row and an error otherwise.
\<close>

definition select_grant :: "env \<Rightarrow> uuid \<Rightarrow> db \<Rightarrow> grant option \<times> bool" where
  [model_defs]:
  "select_grant e i d =
     (if store_fails e Select_grant then (None, True)
      else case filter (\<lambda>g. g_id g = i) (grants d) of
             [g] \<Rightarrow> (Some g, False)
           | _ \<Rightarrow> (None, True))"

text \<open>
  The rows of \<^verbatim>\<open>portfolios\<close> as the two queries of \<^verbatim>\<open>handleProcess\<close> return them:
  each query names its columns, and a column that is not named is absent from the row.
  The first query reads \<^verbatim>\<open>id, portfolio_type, company_id, employee_id, cash_balance\<close>.
\<close>

record cash_row =
  cr_id :: uuid
  cr_portfolio_type :: portfolio_type
  cr_company_id :: uuid
  cr_employee_id :: "uuid option"
  cr_cash_balance :: "rat option"

definition cash_columns :: "portfolio \<Rightarrow> cash_row" where
  [model_defs]:
  "cash_columns p =
     \<lparr>cr_id = pf_id p, cr_portfolio_type = portfolio_type p, cr_company_id = pf_company_id p,
      cr_employee_id = pf_employee_id p, cr_cash_balance = cash_balance p\<rparr>"

text \<open>
  The second query reads
  \<^verbatim>\<open>id, portfolio_type, company_id, employee_id, portfolio_number, available_shares\<close>.
  \<open>sr_total_shares\<close> is what \<^verbatim>\<open>toPortfolio.total_shares\<close> evaluates to: \<open>None\<close>
  (\<^verbatim>\<open>undefined\<close>) on a row of this query, the stored value on the row that
  \<^verbatim>\<open>insert(...).select().single()\<close> returns with all its columns.
\<close>

record share_row =
  sr_id :: uuid
  sr_portfolio_type :: portfolio_type
  sr_company_id :: uuid
  sr_employee_id :: "uuid option"
  sr_portfolio_number :: string
  sr_available_shares :: "rat option"
  sr_total_shares :: "rat option"

definition share_columns :: "portfolio \<Rightarrow> share_row" where
  [model_defs]:
  "share_columns p =
     \<lparr>sr_id = pf_id p, sr_portfolio_type = portfolio_type p, sr_company_id = pf_company_id p,
      sr_employee_id = pf_employee_id p, sr_portfolio_number = portfolio_number p,
      sr_available_shares = available_shares p, sr_total_shares = None\<rparr>"

definition all_columns :: "portfolio \<Rightarrow> share_row" where
  [model_defs]:
  "all_columns p =
     \<lparr>sr_id = pf_id p, sr_portfolio_type = portfolio_type p, sr_company_id = pf_company_id p,
      sr_employee_id = pf_employee_id p, sr_portfolio_number = portfolio_number p,
      sr_available_shares = available_shares p, sr_total_shares = total_shares p\<rparr>"

text \<open>\<^verbatim>\<open>.select(columns).eq('company_id', companyId)\<close> on \<^verbatim>\<open>portfolios\<close>.\<close>

definition select_cash_rows :: "uuid \<Rightarrow> db \<Rightarrow> cash_row list" where
  [model_defs]:
  "select_cash_rows companyId d =
     map cash_columns (filter (\<lambda>p. pf_company_id p = companyId) (portfolios d))"

definition select_share_rows :: "uuid \<Rightarrow> db \<Rightarrow> share_row list" where
  [model_defs]:
  "select_share_rows companyId d =
     map share_columns (filter (\<lambda>p. pf_company_id p = companyId) (portfolios d))"

text \<open>
  Inserts. The constraints written out are those of the migrations: \<^verbatim>\<open>transfer_number\<close>
  unique and \<^verbatim>\<open>amount > 0\<close> on \<^verbatim>\<open>cash_transfers\<close>; the primary key,
  \<^verbatim>\<open>order_number\<close> unique, \<^verbatim>\<open>shares_to_exercise > 0\<close> and
  \<^verbatim>\<open>UNIQUE(vesting_event_id)\<close> on \<^verbatim>\<open>exercise_orders\<close>;
  the primary key of \<^verbatim>\<open>portfolios\<close>, which the foreign keys of \<^verbatim>\<open>cash_transfers\<close>
  refer to. Any other refusal of the store is part of \<open>store_fails\<close>. The rounding of a
  stored value to the scale of its column is not modelled.
\<close>

definition insert_cash_transfer :: "env \<Rightarrow> cash_transfer \<Rightarrow> db \<Rightarrow> db option" where
  [model_defs]:
  "insert_cash_transfer e r d =
     (if store_fails e Insert_cash_transfer
         \<or> ct_transfer_number r \<in> set (map ct_transfer_number (cash_transfers d))
         \<or> \<not> 0 < amount r
      then None
      else Some (d\<lparr>cash_transfers := cash_transfers d @ [r]\<rparr>))"

definition insert_share_transfer :: "env \<Rightarrow> share_transfer \<Rightarrow> db \<Rightarrow> db option" where
  [model_defs]:
  "insert_share_transfer e r d =
     (if store_fails e Insert_share_transfer then None
      else Some (d\<lparr>share_transfers := share_transfers d @ [r]\<rparr>))"

definition insert_portfolio :: "env \<Rightarrow> portfolio \<Rightarrow> db \<Rightarrow> db option" where
  [model_defs]:
  "insert_portfolio e r d =
     (if store_fails e Insert_portfolio \<or> pf_id r \<in> set (map pf_id (portfolios d))
      then None
      else Some (d\<lparr>portfolios := portfolios d @ [r]\<rparr>))"

definition insert_order :: "env \<Rightarrow> exercise_order \<Rightarrow> db \<Rightarrow> db option" where
  [model_defs]:
  "insert_order e r d =
     (if store_fails e Insert_order
         \<or> eo_id r \<in> set (map eo_id (exercise_orders d))
         \<or> order_number r \<in> set (map order_number (exercise_orders d))
         \<or> \<not> 0 < shares_to_exercise r
         \<or> vesting_event_id r \<in> set (map vesting_event_id (exercise_orders d))
      then None
      else Some (d\<lparr>exercise_orders := exercise_orders d @ [r]\<rparr>))"

text \<open>
  \<^verbatim>\<open>.select('employee_number').eq('id', i).single()\<close>, whose error is not looked at:
  the employee number, or nothing.
\<close>

definition select_employee_number :: "env \<Rightarrow> uuid \<Rightarrow> db \<Rightarrow> string option" where
  [model_defs]:
  "select_employee_number e i d =
     (if store_fails e Select_employee then None
      else case filter (\<lambda>x. em_id x = i) (employees d) of
             [x] \<Rightarrow> employee_number x
           | _ \<Rightarrow> None)"

text \<open>\<^verbatim>\<open>.eq('user_id', u).maybeSingle()\<close> on \<^verbatim>\<open>employees\<close>; only the data is read.\<close>

definition select_employee_of_user :: "env \<Rightarrow> uuid \<Rightarrow> db \<Rightarrow> employee option" where
  [model_defs]:
  "select_employee_of_user e u d =
     (if store_fails e Select_employee_of_user then None
      else case filter (\<lambda>x. em_user_id x = Some u) (employees d) of
             [x] \<Rightarrow> Some x
           | _ \<Rightarrow> None)"

section \<open>Approving an order\<close>

definition handleApprove :: "env \<Rightarrow> exercise_order \<Rightarrow> db \<Rightarrow> outcome \<times> db" where
  [model_defs]:
  "handleApprove e ord d =
     (if \<not> confirm e then (Returned, d)
      else if store_fails e Update_order then (Failed (Store_error Update_order), d)
      else (Done, update_orders (eo_id ord)
                    (\<lambda>x. x\<lparr>eo_status := Approved, eo_updated_at := Some (now e)\<rparr>) d))"

section \<open>Rejecting an order\<close>

text \<open>
  \<^verbatim>\<open>handleReject\<close> reads the order to reject and the typed reason from the component state.
  The result of the update of the vesting event is not looked at, so a failure there is
  not reported.
\<close>

definition handleReject :: "env \<Rightarrow> exercise_order option \<Rightarrow> js_string \<Rightarrow> db \<Rightarrow> outcome \<times> db" where
  [model_defs]:
  "handleReject e orderToReject rejectionReason d =
     (case orderToReject of
        None \<Rightarrow> (Returned, d)
      | Some ord \<Rightarrow>
          if trim rejectionReason = [] then (Failed Rejection_reason_required, d)
          else if store_fails e Update_order then (Failed (Store_error Update_order), d)
          else
            let d1 = update_orders (eo_id ord)
                       (\<lambda>x. x\<lparr>eo_status := Rejected,
                              rejection_reason := Some rejectionReason,
                              eo_updated_at := Some (now e)\<rparr>) d;
                d2 = (if store_fails e Update_event then d1
                      else update_events (vesting_event_id ord)
                             (\<lambda>v. v\<lparr>ve_status := Pending_exercise\<rparr>) d1)
            in (Done, d2))"

section \<open>Processing an order\<close>

text \<open>
  A step of the \<^verbatim>\<open>try\<close> block either throws, leaving the store as it is at that
  point, or goes on: \<open>(Some err, d)\<close> or \<open>(None, d)\<close>.
\<close>

definition and_then :: "error option \<times> db \<Rightarrow> (db \<Rightarrow> error option \<times> db) \<Rightarrow> error option \<times> db" where
  [model_defs]:
  "and_then r f = (case r of (Some err, d) \<Rightarrow> (Some err, d) | (None, d) \<Rightarrow> f d)"

definition finish :: "error option \<times> db \<Rightarrow> outcome \<times> db" where
  [model_defs]:
  "finish r = (case r of (Some err, d) \<Rightarrow> (Failed err, d) | (None, d) \<Rightarrow> (Done, d))"

definition employeeCashPortfolio :: "uuid \<Rightarrow> cash_row list \<Rightarrow> cash_row option" where
  [model_defs]:
  "employeeCashPortfolio employeeId rows =
     find (\<lambda>p. cr_portfolio_type p = Employee_cash \<and> cr_employee_id p = Some employeeId) rows"

definition companyCashPortfolio :: "uuid \<Rightarrow> cash_row list \<Rightarrow> cash_row option" where
  [model_defs]:
  "companyCashPortfolio companyId rows =
     find (\<lambda>p. cr_portfolio_type p = Company_cash \<and> cr_company_id p = companyId
                \<and> cr_employee_id p = None) rows"

text \<open>The row that step 1c inserts into \<^verbatim>\<open>cash_transfers\<close>.\<close>

definition settlement_record ::
    "env \<Rightarrow> uuid \<Rightarrow> exercise_order \<Rightarrow> uuid \<Rightarrow> cash_row \<Rightarrow> cash_row \<Rightarrow> cash_transfer" where
  [model_defs]:
  "settlement_record e user ord companyId emp ccp =
     \<lparr>ct_transfer_number = ''CT-'' @ companyId @ ''-'' @ decimal (now e),
      ct_company_id = companyId,
      ct_transfer_type = Exercise_settlement,
      ct_from_portfolio_id = Some (cr_id emp),
      ct_to_portfolio_id = Some (cr_id ccp),
      ct_employee_id = Some (eo_employee_id ord),
      exercise_order_id = Some (eo_id ord),
      amount = total_exercise_cost ord,
      ct_currency = ''SAR'',
      ct_status = Ct_processed,
      description = ''Exercise settlement for order '' @ order_number ord,
      created_by = user\<rparr>"

text \<open>Steps 1, 1a, 1b and 1c: the cash portfolios, the debit, the credit, the record.\<close>

definition cash_settlement :: "env \<Rightarrow> uuid \<Rightarrow> exercise_order \<Rightarrow> uuid \<Rightarrow> db \<Rightarrow> error option \<times> db" where
  [model_defs]:
  "cash_settlement e user ord companyId d =
     (if store_fails e Select_cash_portfolios then (Some (Store_error Select_cash_portfolios), d)
      else
        let rows = select_cash_rows companyId d
        in (case employeeCashPortfolio (eo_employee_id ord) rows of
             None \<Rightarrow> (Some Employee_cash_portfolio_not_found, d)
           | Some emp \<Rightarrow>
              (case companyCashPortfolio companyId rows of
                 None \<Rightarrow> (Some Company_cash_portfolio_not_found, d)
               | Some ccp \<Rightarrow>
                  if js_num (cr_cash_balance emp) < total_exercise_cost ord
                  then (Some Insufficient_cash_balance, d)
                  else
                    let newEmployeeCashBalance = js_num (cr_cash_balance emp) - total_exercise_cost ord
                    in if store_fails e Update_employee_cash
                       then (Some (Store_error Update_employee_cash), d)
                       else
                         let d1 = update_portfolios (cr_id emp)
                                    (\<lambda>p. p\<lparr>cash_balance := Some newEmployeeCashBalance,
                                           pf_updated_at := Some (now e)\<rparr>) d;
                             newCompanyCashBalance = js_num (cr_cash_balance ccp) + total_exercise_cost ord
                         in if store_fails e Update_company_cash
                            then (Some (Store_error Update_company_cash), d1)
                            else
                              let d2 = update_portfolios (cr_id ccp)
                                         (\<lambda>p. p\<lparr>cash_balance := Some newCompanyCashBalance,
                                                pf_updated_at := Some (now e)\<rparr>) d1
                              in (case insert_cash_transfer e
                                        (settlement_record e user ord companyId emp ccp) d2 of
                                   None \<Rightarrow> (Some (Store_error Insert_cash_transfer), d2)
                                 | Some d3 \<Rightarrow> (None, d3)))))"

definition fromPortfolio :: "uuid \<Rightarrow> share_row list \<Rightarrow> share_row option" where
  [model_defs]:
  "fromPortfolio companyId rows =
     find (\<lambda>p. sr_portfolio_type p = Company_reserved \<and> sr_company_id p = companyId
                \<and> sr_employee_id p = None) rows"

definition toPortfolio :: "uuid \<Rightarrow> uuid \<Rightarrow> share_row list \<Rightarrow> share_row option" where
  [model_defs]:
  "toPortfolio companyId employeeId rows =
     find (\<lambda>p. sr_portfolio_type p = Employee_vested \<and> sr_employee_id p = Some employeeId
                \<and> sr_company_id p = companyId) rows"

text \<open>
  The employee's vested portfolio is created when the query did not find one. The insert
  names seven columns; \<^verbatim>\<open>cash_balance\<close> and \<^verbatim>\<open>currency\<close> take the defaults of the
  migration that adds them.
\<close>

definition create_vested_portfolio :: "env \<Rightarrow> uuid \<Rightarrow> uuid \<Rightarrow> db \<Rightarrow> (share_row \<times> db) option" where
  [model_defs]:
  "create_vested_portfolio e companyId employeeId d =
     (let portfolioNumber = ''VEST-'' @ companyId @ ''-''
                              @ js_or (select_employee_number e employeeId d) (take 8 employeeId);
          newPortfolio = \<lparr>pf_id = new_id e, portfolio_type = Employee_vested,
                          pf_company_id = companyId, pf_employee_id = Some employeeId,
                          portfolio_number = portfolioNumber,
                          total_shares = Some 0, available_shares = Some 0, locked_shares = Some 0,
                          cash_balance = Some 0, currency = Some ''SAR'', pf_updated_at = None\<rparr>
      in (case insert_portfolio e newPortfolio d of
           None \<Rightarrow> None
         | Some d1 \<Rightarrow> Some (all_columns newPortfolio, d1)))"

text \<open>The row that step 4 inserts into \<^verbatim>\<open>share_transfers\<close>.\<close>

definition exercise_record ::
    "env \<Rightarrow> exercise_order \<Rightarrow> uuid \<Rightarrow> share_row \<Rightarrow> share_row \<Rightarrow> share_transfer" where
  [model_defs]:
  "exercise_record e ord companyId fromP toP =
     \<lparr>st_transfer_number = ''TRF-'' @ companyId @ ''-'' @ decimal (now e),
      st_company_id = companyId,
      st_grant_id = eo_grant_id ord,
      st_employee_id = eo_employee_id ord,
      st_from_portfolio_id = sr_id fromP,
      st_to_portfolio_id = sr_id toP,
      shares_transferred = shares_to_exercise ord,
      st_transfer_type = Exercise,
      transfer_date = now e div 86400000,
      st_processed_at = now e,
      processed_by_system = False,
      st_notes = ''Exercise order '' @ order_number ord\<rparr>"

text \<open>
  Step 2: the company's reserved portfolio and the employee's vested portfolio, created
  when missing, then the check that the company has the shares.
\<close>

definition share_portfolios ::
    "env \<Rightarrow> exercise_order \<Rightarrow> uuid \<Rightarrow> db \<Rightarrow> (error + share_row \<times> share_row) \<times> db" where
  [model_defs]:
  "share_portfolios e ord companyId d =
     (if store_fails e Select_share_portfolios then (Inl (Store_error Select_share_portfolios), d)
      else
        let rows = select_share_rows companyId d
        in (case fromPortfolio companyId rows of
              None \<Rightarrow> (Inl Company_reserved_portfolio_not_found, d)
            | Some fromP \<Rightarrow>
               (case (case toPortfolio companyId (eo_employee_id ord) rows of
                        Some t \<Rightarrow> Some (t, d)
                      | None \<Rightarrow> create_vested_portfolio e companyId (eo_employee_id ord) d) of
                  None \<Rightarrow> (Inl (Store_error Insert_portfolio), d)
                | Some (toP, d1) \<Rightarrow>
                   if js_num (sr_available_shares fromP) < shares_to_exercise ord
                   then (Inl Insufficient_shares, d1)
                   else (Inr (fromP, toP), d1))))"

text \<open>Steps 3 and 4: the debit, the credit, the record.\<close>

definition transfer_shares ::
    "env \<Rightarrow> exercise_order \<Rightarrow> uuid \<Rightarrow> share_row \<Rightarrow> share_row \<Rightarrow> db \<Rightarrow> error option \<times> db" where
  [model_defs]:
  "transfer_shares e ord companyId fromP toP d1 =
     (let sharesToTransfer = shares_to_exercise ord
      in if store_fails e Update_from_portfolio
         then (Some (Store_error Update_from_portfolio), d1)
         else
           let d2 = update_portfolios (sr_id fromP)
                      (\<lambda>p. p\<lparr>available_shares :=
                                Some (js_num (sr_available_shares fromP) - sharesToTransfer),
                             pf_updated_at := Some (now e)\<rparr>) d1
           in if store_fails e Update_to_portfolio
              then (Some (Store_error Update_to_portfolio), d2)
              else
                let d3 = update_portfolios (sr_id toP)
                           (\<lambda>p. p\<lparr>total_shares :=
                                     Some (js_num (sr_total_shares toP) + sharesToTransfer),
                                  available_shares :=
                                     Some (js_num (sr_available_shares toP) + sharesToTransfer),
                                  pf_updated_at := Some (now e)\<rparr>) d2
                in (case insert_share_transfer e
                          (exercise_record e ord companyId fromP toP) d3 of
                      None \<Rightarrow> (Some (Store_error Insert_share_transfer), d3)
                    | Some d4 \<Rightarrow> (None, d4)))"

definition share_settlement :: "env \<Rightarrow> exercise_order \<Rightarrow> uuid \<Rightarrow> db \<Rightarrow> error option \<times> db" where
  [model_defs]:
  "share_settlement e ord companyId d =
     (case share_portfolios e ord companyId d of
        (Inl err, d1) \<Rightarrow> (Some err, d1)
      | (Inr (fromP, toP), d1) \<Rightarrow> transfer_shares e ord companyId fromP toP d1)"

text \<open>Step 5: the order becomes processed. The update is keyed on the identifier alone.\<close>

definition order_processed :: "env \<Rightarrow> uuid \<Rightarrow> exercise_order \<Rightarrow> db \<Rightarrow> error option \<times> db" where
  [model_defs]:
  "order_processed e user ord d =
     (if store_fails e Update_order then (Some (Store_error Update_order), d)
      else (None, update_orders (eo_id ord)
                    (\<lambda>x. x\<lparr>eo_status := Processed, eo_processed_at := Some (now e),
                           processed_by := Some user, eo_updated_at := Some (now e)\<rparr>) d))"

text \<open>Step 6: the vesting event becomes exercised.\<close>

definition event_exercised :: "env \<Rightarrow> exercise_order \<Rightarrow> db \<Rightarrow> error option \<times> db" where
  [model_defs]:
  "event_exercised e ord d =
     (if store_fails e Update_event then (Some (Store_error Update_event), d)
      else (None, update_events (vesting_event_id ord)
                    (\<lambda>v. v\<lparr>ve_status := Exercised, ve_updated_at := Some (now e)\<rparr>) d))"

text \<open>The steps in the order of the source, each one run only when none before it threw.\<close>

definition settle :: "env \<Rightarrow> uuid \<Rightarrow> exercise_order \<Rightarrow> uuid \<Rightarrow> db \<Rightarrow> error option \<times> db" where
  [model_defs]:
  "settle e user ord companyId d =
     and_then
       (and_then
         (and_then (cash_settlement e user ord companyId d)
                   (share_settlement e ord companyId))
         (order_processed e user ord))
       (event_exercised e ord)"

text \<open>
  \<^verbatim>\<open>handleProcess\<close>: the confirmation, the signed-in user, the grant and its company
  (\<^verbatim>\<open>grant.company_id || order.company_id\<close>), then the steps. The status of the order
  is never read.
\<close>

definition handleProcess :: "env \<Rightarrow> exercise_order \<Rightarrow> db \<Rightarrow> outcome \<times> db" where
  [model_defs]:
  "handleProcess e ord d =
     (if \<not> confirm e then (Returned, d)
      else case auth_user e of
             None \<Rightarrow> (Failed User_not_found, d)
           | Some user \<Rightarrow>
              (case select_grant e (eo_grant_id ord) d of
                 (_, True) \<Rightarrow> (Failed (Store_error Select_grant), d)
               | (None, False) \<Rightarrow> (Failed Grant_not_found, d)
               | (Some g, False) \<Rightarrow>
                   finish (settle e user ord (js_or (g_company_id g) (eo_company_id ord)) d)))"

text \<open>
  The buttons of a row of the orders table: Approve and Reject are rendered for a
  pending order, Process for an approved one, and nothing else calls the handlers.
\<close>

datatype action = Approve | Reject | Process

definition row_actions :: "exercise_order \<Rightarrow> action list" where
  "row_actions ord =
     (if eo_status ord = Pending then [Approve, Reject] else [])
     @ (if eo_status ord = Approved then [Process] else [])"

section \<open>Creating an order\<close>

text \<open>
  The component state \<^verbatim>\<open>cashPortfolio\<close>: the employee's cash portfolio as
  \<^verbatim>\<open>loadCashPortfolio\<close> left it, either the row of the store or the stand-in
  \<^verbatim>\<open>{ cash_balance: 0, currency: 'SAR' }\<close>, which has no \<^verbatim>\<open>id\<close>.
\<close>

record loaded_portfolio =
  lp_id :: "uuid option"
  lp_cash_balance :: "rat option"

text \<open>
  The row that \<^verbatim>\<open>handleConfirmExercise\<close> inserts into \<^verbatim>\<open>exercise_orders\<close>;
  \<^verbatim>\<open>sufficient_funds\<close> is the constant \<^verbatim>\<open>true\<close>.
\<close>

definition new_order ::
    "env \<Rightarrow> employee \<Rightarrow> vesting_event \<Rightarrow> loaded_portfolio \<Rightarrow> rat \<Rightarrow> exercise_order" where
  [model_defs]:
  "new_order e emp ev cp totalCost =
     \<lparr>eo_id = new_id e,
      order_number = ''EX-'' @ em_company_id emp @ ''-'' @ decimal (now e),
      eo_company_id = em_company_id emp,
      eo_employee_id = em_id emp,
      vesting_event_id = ve_id ev,
      eo_grant_id = ve_grant_id ev,
      shares_to_exercise = shares_to_vest ev,
      exercise_price_per_share = js_num (exercise_price ev),
      total_exercise_cost = totalCost,
      cash_portfolio_id = lp_id cp,
      cash_balance_at_order = lp_cash_balance cp,
      sufficient_funds = True,
      eo_status = Pending,
      eo_processed_at = None,
      processed_by = None,
      rejection_reason = None,
      eo_updated_at = Some (now e)\<rparr>"

definition handleConfirmExercise ::
    "env \<Rightarrow> vesting_event option \<Rightarrow> loaded_portfolio option \<Rightarrow> db \<Rightarrow> outcome \<times> db" where
  [model_defs]:
  "handleConfirmExercise e exerciseEvent cashPortfolio d =
     (case exerciseEvent of
        None \<Rightarrow> (Returned, d)
      | Some ev \<Rightarrow>
         (case auth_user e of
            None \<Rightarrow> (Returned, d)
          | Some user \<Rightarrow>
             (case select_employee_of_user e user d of
                None \<Rightarrow> (Returned, d)
              | Some emp \<Rightarrow>
                 let totalCost = shares_to_vest ev * js_num (exercise_price ev)
                 in (case cashPortfolio of
                      None \<Rightarrow> (Failed Insufficient_funds, d)
                    | Some cp \<Rightarrow>
                       if js_num (lp_cash_balance cp) < totalCost
                       then (Failed Insufficient_funds, d)
                       else
                         (case insert_order e (new_order e emp ev cp totalCost) d of
                           None \<Rightarrow> (Failed (Store_error Insert_order), d)
                         | Some d1 \<Rightarrow>
                            (Done, if store_fails e Update_event then d1
                                   else update_events (ve_id ev)
                                          (\<lambda>v. v\<lparr>ve_status := Pending_exercise\<rparr>) d1))))))"

section \<open>A small ledger\<close>

text \<open>
  One company \<open>c1\<close> with its reserved shares and its cash, one employee \<open>e1\<close> with a
  cash portfolio and a vested portfolio that already holds 500 shares, one vesting event
  of 100 options at 12.50 and its order, which an operator has approved.
\<close>

definition reserved0 :: portfolio where
  [ledger_defs]:
  "reserved0 =
     \<lparr>pf_id = ''p-res'', portfolio_type = Company_reserved, pf_company_id = ''c1'',
      pf_employee_id = None, portfolio_number = ''RES-c1'',
      total_shares = Some 10000, available_shares = Some 10000, locked_shares = Some 0,
      cash_balance = Some 0, currency = Some ''SAR'', pf_updated_at = None\<rparr>"

definition company_cash0 :: portfolio where
  [ledger_defs]:
  "company_cash0 =
     \<lparr>pf_id = ''p-cc'', portfolio_type = Company_cash, pf_company_id = ''c1'',
      pf_employee_id = None, portfolio_number = ''CASH-COMP-c1-000001'',
      total_shares = None, available_shares = None, locked_shares = None,
      cash_balance = Some 500, currency = Some ''SAR'', pf_updated_at = None\<rparr>"

definition employee_cash0 :: portfolio where
  [ledger_defs]:
  "employee_cash0 =
     \<lparr>pf_id = ''p-ec'', portfolio_type = Employee_cash, pf_company_id = ''c1'',
      pf_employee_id = Some ''e1'', portfolio_number = ''CASH-c1-000001'',
      total_shares = None, available_shares = None, locked_shares = None,
      cash_balance = Some 2000, currency = Some ''SAR'', pf_updated_at = None\<rparr>"

definition vested0 :: portfolio where
  [ledger_defs]:
  "vested0 =
     \<lparr>pf_id = ''p-ev'', portfolio_type = Employee_vested, pf_company_id = ''c1'',
      pf_employee_id = Some ''e1'', portfolio_number = ''VEST-c1-E001'',
      total_shares = Some 500, available_shares = Some 500, locked_shares = Some 0,
      cash_balance = Some 0, currency = Some ''SAR'', pf_updated_at = None\<rparr>"

definition event0 :: vesting_event where
  [ledger_defs]:
  "event0 =
     \<lparr>ve_id = ''v1'', ve_grant_id = ''g1'', ve_employee_id = ''e1'', shares_to_vest = 100,
      exercise_price = Some 12.5, requires_exercise = True, ve_status = Pending_exercise,
      ve_updated_at = None\<rparr>"

definition order0 :: exercise_order where
  [ledger_defs]:
  "order0 =
     \<lparr>eo_id = ''o1'', order_number = ''EX-c1-0'', eo_company_id = ''c1'', eo_employee_id = ''e1'',
      vesting_event_id = ''v1'', eo_grant_id = ''g1'', shares_to_exercise = 100,
      exercise_price_per_share = 12.5, total_exercise_cost = 1250,
      cash_portfolio_id = Some ''p-ec'', cash_balance_at_order = Some 2000,
      sufficient_funds = True, eo_status = Approved, eo_processed_at = None,
      processed_by = None, rejection_reason = None, eo_updated_at = None\<rparr>"

definition ledger0 :: db where
  [ledger_defs]:
  "ledger0 =
     \<lparr>portfolios = [reserved0, company_cash0, employee_cash0, vested0],
      exercise_orders = [order0],
      cash_transfers = [],
      share_transfers = [],
      vesting_events = [event0],
      grants = [\<lparr>g_id = ''g1'', g_company_id = Some ''c1'', g_employee_id = ''e1''\<rparr>],
      employees = [\<lparr>em_id = ''e1'', em_company_id = ''c1'', em_user_id = Some ''u-e1'',
                    employee_number = Some ''E001''\<rparr>]\<rparr>"

text \<open>An operator and the employee, at two times of the clock; no request fails.\<close>

definition operator_at :: "nat \<Rightarrow> env" where
  [ledger_defs]:
  "operator_at t =
     \<lparr>auth_user = Some ''u-op'', confirm = True, now = t, new_id = ''p-new'',
      store_fails = (\<lambda>_. False)\<rparr>"

definition employee_at :: "nat \<Rightarrow> env" where
  [ledger_defs]:
  "employee_at t =
     \<lparr>auth_user = Some ''u-e1'', confirm = True, now = t, new_id = ''o-new'',
      store_fails = (\<lambda>_. False)\<rparr>"

text \<open>
  The same ledger before the employee has asked to exercise, with the order still
  pending, with 5000 in the employee's cash portfolio, and with only 50 shares left in
  the company's reserved portfolio.
\<close>

definition fresh_ledger :: db where
  [ledger_defs]:
  "fresh_ledger = ledger0\<lparr>exercise_orders := []\<rparr>"

definition pending_ledger :: db where
  [ledger_defs]:
  "pending_ledger = ledger0\<lparr>exercise_orders := [order0\<lparr>eo_status := Pending\<rparr>]\<rparr>"

definition funded_ledger :: db where
  [ledger_defs]:
  "funded_ledger =
     ledger0\<lparr>portfolios :=
       [reserved0, company_cash0, employee_cash0\<lparr>cash_balance := Some 5000\<rparr>, vested0]\<rparr>"

definition short_ledger :: db where
  [ledger_defs]:
  "short_ledger =
     ledger0\<lparr>portfolios :=
       [reserved0\<lparr>available_shares := Some 50\<rparr>, company_cash0, employee_cash0, vested0]\<rparr>"

text \<open>The order as the store holds it once \<open>operator_at 1\<close> has processed it.\<close>

definition order1 :: exercise_order where
  [ledger_defs]:
  "order1 =
     order0\<lparr>eo_status := Processed, eo_processed_at := Some 1, processed_by := Some ''u-op'',
            eo_updated_at := Some 1\<rparr>"

text \<open>The stores that processing \<open>order0\<close> leaves behind.\<close>

definition ledger1 :: db where
  [ledger_defs]:
  "ledger1 = snd (handleProcess (operator_at 1) order0 ledger0)"

definition short_ledger1 :: db where
  [ledger_defs]:
  "short_ledger1 = snd (handleProcess (operator_at 1) order0 short_ledger)"

definition funded_ledger1 :: db where
  [ledger_defs]:
  "funded_ledger1 = snd (handleProcess (operator_at 1) order0 funded_ledger)"

definition funded_ledger2 :: db where
  [ledger_defs]:
  "funded_ledger2 = snd (handleProcess (operator_at 2) order1 funded_ledger1)"

text \<open>
  The component state \<^verbatim>\<open>cashPortfolio\<close> of the employee's page with a given balance,
  the order while it is pending, the store once the operator has rejected it, and the
  vesting event without an exercise price.
\<close>

definition cash_loaded :: "rat \<Rightarrow> loaded_portfolio" where
  [ledger_defs]:
  "cash_loaded b = \<lparr>lp_id = Some ''p-ec'', lp_cash_balance = Some b\<rparr>"

definition pending_order0 :: exercise_order where
  [ledger_defs]:
  "pending_order0 = order0\<lparr>eo_status := Pending\<rparr>"

definition rejected_ledger :: db where
  [ledger_defs]:
  "rejected_ledger =
     snd (handleReject (operator_at 1) (Some pending_order0) [110, 111] pending_ledger)"

definition unpriced_event :: vesting_event where
  [ledger_defs]:
  "unpriced_event = event0\<lparr>exercise_price := None\<rparr>"

section \<open>Observations on the store\<close>

text \<open>
  The row of a portfolio, its cash balance read as the handlers read it (\<^verbatim>\<open>null\<close> as
  \<open>0\<close>) and its share counts, by identifier; the payloads of the four portfolio updates
  of \<^verbatim>\<open>handleProcess\<close>; the store after steps 1a to 1c.
\<close>

definition portfolio_by_id :: "db \<Rightarrow> uuid \<Rightarrow> portfolio option" where
  [observation_defs]:
  "portfolio_by_id d i = find (\<lambda>p. pf_id p = i) (portfolios d)"

definition balance :: "db \<Rightarrow> uuid \<Rightarrow> rat" where
  [observation_defs]:
  "balance d i = (case portfolio_by_id d i of None \<Rightarrow> 0 | Some p \<Rightarrow> js_num (cash_balance p))"

definition holdings :: "db \<Rightarrow> uuid \<Rightarrow> (rat option \<times> rat option \<times> rat option) option" where
  [observation_defs]:
  "holdings d i =
     map_option (\<lambda>p. (total_shares p, available_shares p, locked_shares p)) (portfolio_by_id d i)"

definition debit_cash :: "env \<Rightarrow> exercise_order \<Rightarrow> cash_row \<Rightarrow> portfolio \<Rightarrow> portfolio" where
  "debit_cash e ord r p =
     p\<lparr>cash_balance := Some (js_num (cr_cash_balance r) - total_exercise_cost ord),
       pf_updated_at := Some (now e)\<rparr>"

definition credit_cash :: "env \<Rightarrow> exercise_order \<Rightarrow> cash_row \<Rightarrow> portfolio \<Rightarrow> portfolio" where
  "credit_cash e ord r p =
     p\<lparr>cash_balance := Some (js_num (cr_cash_balance r) + total_exercise_cost ord),
       pf_updated_at := Some (now e)\<rparr>"

definition cash_moved :: "env \<Rightarrow> uuid \<Rightarrow> exercise_order \<Rightarrow> uuid \<Rightarrow> cash_row \<Rightarrow> cash_row \<Rightarrow> db \<Rightarrow> db" where
  "cash_moved e u ord c r1 r2 d =
     (update_portfolios (cr_id r2) (credit_cash e ord r2)
        (update_portfolios (cr_id r1) (debit_cash e ord r1) d))
     \<lparr>cash_transfers := cash_transfers d @ [settlement_record e u ord c r1 r2]\<rparr>"

definition zero_portfolio :: "portfolio \<Rightarrow> bool" where
  "zero_portfolio p \<longleftrightarrow>
     total_shares p = Some 0 \<and> available_shares p = Some 0 \<and> locked_shares p = Some 0
     \<and> cash_balance p = Some 0"

definition debit_shares :: "env \<Rightarrow> exercise_order \<Rightarrow> share_row \<Rightarrow> portfolio \<Rightarrow> portfolio" where
  "debit_shares e ord r p =
     p\<lparr>available_shares := Some (js_num (sr_available_shares r) - shares_to_exercise ord),
       pf_updated_at := Some (now e)\<rparr>"

definition credit_shares :: "env \<Rightarrow> exercise_order \<Rightarrow> share_row \<Rightarrow> portfolio \<Rightarrow> portfolio" where
  "credit_shares e ord r p =
     p\<lparr>total_shares := Some (js_num (sr_total_shares r) + shares_to_exercise ord),
       available_shares := Some (js_num (sr_available_shares r) + shares_to_exercise ord),
       pf_updated_at := Some (now e)\<rparr>"

section \<open>Properties\<close>

lemma trim_whitespace_only:
  "trim s = [] \<longleftrightarrow> (\<forall>c \<in> set s. js_whitespace c)"
proof
  assume "trim s = []"
  then have rest: "\<forall>c \<in> set (dropWhile js_whitespace s). js_whitespace c"
    by (simp add: trim_def)
  have "dropWhile js_whitespace s = []"
  proof (rule ccontr)
    assume ne: "dropWhile js_whitespace s \<noteq> []"
    then have "\<not> js_whitespace (hd (dropWhile js_whitespace s))"
      by (rule hd_dropWhile)
    moreover have "hd (dropWhile js_whitespace s) \<in> set (dropWhile js_whitespace s)"
      using ne by simp
    ultimately show False
      using rest by blast
  qed
  then show "\<forall>c \<in> set s. js_whitespace c"
    by simp
next
  assume "\<forall>c \<in> set s. js_whitespace c"
  then have "dropWhile js_whitespace s = []"
    by simp
  then show "trim s = []"
    by (simp only: trim_def rev.simps dropWhile.simps)
qed

subsection \<open>The store after each step\<close>

lemma update_portfolios_fields [simp]:
  "portfolios (update_portfolios i f d) = map (\<lambda>p. if pf_id p = i then f p else p) (portfolios d)"
  "exercise_orders (update_portfolios i f d) = exercise_orders d"
  "cash_transfers (update_portfolios i f d) = cash_transfers d"
  "share_transfers (update_portfolios i f d) = share_transfers d"
  "vesting_events (update_portfolios i f d) = vesting_events d"
  "grants (update_portfolios i f d) = grants d"
  "employees (update_portfolios i f d) = employees d"
  by (simp_all add: update_portfolios_def)

lemma update_orders_fields [simp]:
  "portfolios (update_orders i f d) = portfolios d"
  "exercise_orders (update_orders i f d) = map (\<lambda>x. if eo_id x = i then f x else x) (exercise_orders d)"
  "cash_transfers (update_orders i f d) = cash_transfers d"
  "share_transfers (update_orders i f d) = share_transfers d"
  "vesting_events (update_orders i f d) = vesting_events d"
  "grants (update_orders i f d) = grants d"
  "employees (update_orders i f d) = employees d"
  by (simp_all add: update_orders_def)

lemma update_events_fields [simp]:
  "portfolios (update_events i f d) = portfolios d"
  "exercise_orders (update_events i f d) = exercise_orders d"
  "cash_transfers (update_events i f d) = cash_transfers d"
  "share_transfers (update_events i f d) = share_transfers d"
  "vesting_events (update_events i f d) = map (\<lambda>x. if ve_id x = i then f x else x) (vesting_events d)"
  "grants (update_events i f d) = grants d"
  "employees (update_events i f d) = employees d"
  by (simp_all add: update_events_def)

lemma find_by_id_map:
  assumes "\<And>p. pf_id (g p) = pf_id p"
  shows "find (\<lambda>p. pf_id p = i) (map g ps) = map_option g (find (\<lambda>p. pf_id p = i) ps)"
  by (induction ps) (simp_all add: assms)

lemma find_by_id_distinct:
  "distinct (map pf_id ps) \<Longrightarrow> p \<in> set ps \<Longrightarrow> find (\<lambda>q. pf_id q = pf_id p) ps = Some p"
  by (induction ps) auto

lemma find_by_id_append:
  "i \<in> pf_id ` set ps \<Longrightarrow> find (\<lambda>p. pf_id p = i) (ps @ qs) = find (\<lambda>p. pf_id p = i) ps"
  by (induction ps) auto

lemma find_append_case:
  "find P (xs @ ys) = (case find P xs of None \<Rightarrow> find P ys | Some x \<Rightarrow> Some x)"
  by (induction xs) simp_all

lemma find_map_columns:
  "find P (map f xs) = Some r \<Longrightarrow> \<exists>x \<in> set xs. r = f x \<and> P (f x)"
  by (induction xs) (auto split: if_splits)

lemma employeeCashPortfolio_row:
  assumes "employeeCashPortfolio eid (select_cash_rows c d) = Some r"
  shows "\<exists>p \<in> set (portfolios d). r = cash_columns p \<and> pf_company_id p = c
            \<and> portfolio_type p = Employee_cash \<and> pf_employee_id p = Some eid"
  using find_map_columns [OF assms [unfolded employeeCashPortfolio_def select_cash_rows_def]]
  by (auto simp: cash_columns_def)

lemma companyCashPortfolio_row:
  assumes "companyCashPortfolio c (select_cash_rows c d) = Some r"
  shows "\<exists>p \<in> set (portfolios d). r = cash_columns p \<and> pf_company_id p = c
            \<and> portfolio_type p = Company_cash \<and> pf_employee_id p = None"
  using find_map_columns [OF assms [unfolded companyCashPortfolio_def select_cash_rows_def]]
  by (auto simp: cash_columns_def)

lemma cash_settlement_done:
  assumes "cash_settlement e u ord c d = (None, d')"
  shows "\<exists>r1 r2. employeeCashPortfolio (eo_employee_id ord) (select_cash_rows c d) = Some r1
           \<and> companyCashPortfolio c (select_cash_rows c d) = Some r2
           \<and> \<not> js_num (cr_cash_balance r1) < total_exercise_cost ord
           \<and> d' = cash_moved e u ord c r1 r2 d"
  using assms
  by (auto simp: cash_settlement_def Let_def insert_cash_transfer_def debit_cash_def credit_cash_def
                 cash_moved_def
           split: option.splits if_splits)

lemma share_portfolios_store:
  assumes "share_portfolios e ord c d = (x, d1)"
  shows "d1 = d \<or> (\<exists>np. d1 = d\<lparr>portfolios := portfolios d @ [np]\<rparr> \<and> zero_portfolio np
                        \<and> pf_id np \<notin> pf_id ` set (portfolios d))"
  using assms
  by (auto simp: share_portfolios_def Let_def create_vested_portfolio_def insert_portfolio_def
                 zero_portfolio_def
           split: option.splits if_splits)

lemma transfer_shares_cases:
  assumes "transfer_shares e ord c fromP toP d1 = (r, d')"
  shows "(r = Some (Store_error Update_from_portfolio) \<and> d' = d1)
       \<or> (r = Some (Store_error Update_to_portfolio)
            \<and> d' = update_portfolios (sr_id fromP) (debit_shares e ord fromP) d1)
       \<or> (r = Some (Store_error Insert_share_transfer)
            \<and> d' = update_portfolios (sr_id toP) (credit_shares e ord toP)
                     (update_portfolios (sr_id fromP) (debit_shares e ord fromP) d1))
       \<or> (r = None
            \<and> d' = (update_portfolios (sr_id toP) (credit_shares e ord toP)
                      (update_portfolios (sr_id fromP) (debit_shares e ord fromP) d1))
                    \<lparr>share_transfers := share_transfers d1 @ [exercise_record e ord c fromP toP]\<rparr>)"
  using assms
  by (auto simp: transfer_shares_def Let_def insert_share_transfer_def debit_shares_def
                 credit_shares_def
           split: option.splits if_splits)

lemma balance_cong: "portfolios d = portfolios d' \<Longrightarrow> balance d i = balance d' i"
  by (simp add: balance_def portfolio_by_id_def)

lemma balance_update_portfolios:
  assumes "\<And>p. pf_id (f p) = pf_id p" and "\<And>p. cash_balance (f p) = cash_balance p"
  shows "balance (update_portfolios i f d) j = balance d j"
proof -
  let ?g = "\<lambda>p. if pf_id p = i then f p else p"
  have "portfolio_by_id (update_portfolios i f d) j = map_option ?g (portfolio_by_id d j)"
    unfolding portfolio_by_id_def update_portfolios_fields
    by (rule find_by_id_map) (simp add: assms)
  then show ?thesis
    by (cases "portfolio_by_id d j") (simp_all add: balance_def assms)
qed

lemma balance_append_zero:
  assumes "zero_portfolio np"
  shows "balance (d\<lparr>portfolios := portfolios d @ [np]\<rparr>) j = balance d j"
proof (cases "find (\<lambda>p. pf_id p = j) (portfolios d)")
  case None
  then show ?thesis
    using assms by (simp add: balance_def portfolio_by_id_def find_append_case zero_portfolio_def js_num_def)
next
  case (Some a)
  then show ?thesis
    by (simp add: balance_def portfolio_by_id_def find_append_case)
qed

lemma transfer_shares_balance:
  assumes "transfer_shares e ord c fromP toP d1 = (r, d')"
  shows "balance d' j = balance d1 j"
proof -
  have d: "\<And>p. pf_id (debit_shares e ord fromP p) = pf_id p"
          "\<And>p. cash_balance (debit_shares e ord fromP p) = cash_balance p"
    by (simp_all add: debit_shares_def)
  have c: "\<And>p. pf_id (credit_shares e ord toP p) = pf_id p"
          "\<And>p. cash_balance (credit_shares e ord toP p) = cash_balance p"
    by (simp_all add: credit_shares_def)
  let ?d2 = "update_portfolios (sr_id fromP) (debit_shares e ord fromP) d1"
  let ?d3 = "update_portfolios (sr_id toP) (credit_shares e ord toP) ?d2"
  have b2: "balance ?d2 j = balance d1 j"
    by (rule balance_update_portfolios) (rule d)+
  have b3: "balance ?d3 j = balance d1 j"
    using balance_update_portfolios [of "credit_shares e ord toP" "sr_id toP" ?d2 j] c b2 by simp
  have b4: "balance (?d3\<lparr>share_transfers := share_transfers d1 @ [exercise_record e ord c fromP toP]\<rparr>) j
              = balance ?d3 j"
    by (rule balance_cong) simp
  from transfer_shares_cases [OF assms] show ?thesis
    using b2 b3 b4 by auto
qed

lemma share_settlement_balance:
  assumes "share_settlement e ord c d = (r, d')"
  shows "balance d' j = balance d j"
proof (cases "share_portfolios e ord c d")
  case (Pair x d1)
  have b1: "balance d1 j = balance d j"
    using share_portfolios_store [OF Pair] balance_append_zero by auto
  show ?thesis
  proof (cases x)
    case (Inl err)
    then show ?thesis
      using assms Pair b1 by (simp add: share_settlement_def)
  next
    case (Inr ft)
    then obtain fromP toP where "x = Inr (fromP, toP)"
      by (cases ft) simp
    then have "transfer_shares e ord c fromP toP d1 = (r, d')"
      using assms Pair by (simp add: share_settlement_def)
    then show ?thesis
      using transfer_shares_balance b1 by simp
  qed
qed

lemma and_then_None:
  "and_then r f = (None, d') \<longleftrightarrow> (\<exists>d1. r = (None, d1) \<and> f d1 = (None, d'))"
  by (cases r) (auto simp: and_then_def split: option.splits)

lemma and_then_Some:
  "and_then r f = (Some err, d') \<longleftrightarrow>
     r = (Some err, d') \<or> (\<exists>d1. r = (None, d1) \<and> f d1 = (Some err, d'))"
  by (cases r) (auto simp: and_then_def split: option.splits)

lemma finish_Done: "finish r = (Done, d') \<longleftrightarrow> r = (None, d')"
  by (cases r) (auto simp: finish_def split: option.splits)

lemma finish_Failed: "finish r = (Failed err, d') \<longleftrightarrow> r = (Some err, d')"
  by (cases r) (auto simp: finish_def split: option.splits)

lemma handleProcess_Done:
  assumes "handleProcess e ord d = (Done, d')"
  shows "\<exists>u c. auth_user e = Some u \<and> settle e u ord c d = (None, d')"
  using assms
  by (auto simp: handleProcess_def finish_Done split: if_splits option.splits prod.splits bool.splits)

lemma handleProcess_Failed:
  assumes "handleProcess e ord d = (Failed err, d')"
  shows "(d' = d \<and> (err = User_not_found \<or> err = Grant_not_found \<or> err = Store_error Select_grant))
       \<or> (\<exists>u c. auth_user e = Some u \<and> settle e u ord c d = (Some err, d'))"
  using assms
  by (auto simp: handleProcess_def finish_Failed split: if_splits option.splits prod.splits bool.splits)

lemma settle_None:
  assumes "settle e u ord c d = (None, d')"
  shows "\<exists>d1 d2. cash_settlement e u ord c d = (None, d1)
            \<and> share_settlement e ord c d1 = (None, d2)
            \<and> d' = update_events (vesting_event_id ord)
                     (\<lambda>v. v\<lparr>ve_status := Exercised, ve_updated_at := Some (now e)\<rparr>)
                     (update_orders (eo_id ord)
                        (\<lambda>x. x\<lparr>eo_status := Processed, eo_processed_at := Some (now e),
                               processed_by := Some u, eo_updated_at := Some (now e)\<rparr>) d2)"
  using assms
  by (auto simp: settle_def and_then_None order_processed_def event_exercised_def split: if_splits)

lemma find_in_set: "find P xs = Some x \<Longrightarrow> P x \<and> x \<in> set xs"
  by (induction xs) (auto split: if_splits)

lemma js_num_simps [simp]: "js_num None = 0" "js_num (Some x) = x"
  by (simp_all add: js_num_def)

lemma cash_columns_fields [simp]:
  "cr_id (cash_columns p) = pf_id p"
  "cr_portfolio_type (cash_columns p) = portfolio_type p"
  "cr_company_id (cash_columns p) = pf_company_id p"
  "cr_employee_id (cash_columns p) = pf_employee_id p"
  "cr_cash_balance (cash_columns p) = cash_balance p"
  by (simp_all add: cash_columns_def)

lemma balance_cash_moved:
  assumes pk: "distinct (map pf_id (portfolios d))"
    and p: "p \<in> set (portfolios d)" and q: "q \<in> set (portfolios d)"
    and ne: "pf_id p \<noteq> pf_id q"
  shows "balance (cash_moved e u ord c (cash_columns p) (cash_columns q) d) i =
           (if i = pf_id p then balance d i - total_exercise_cost ord
            else if i = pf_id q then balance d i + total_exercise_cost ord
            else balance d i)"
proof -
  let ?g1 = "\<lambda>x. if pf_id x = pf_id p then debit_cash e ord (cash_columns p) x else x"
  let ?g2 = "\<lambda>x. if pf_id x = pf_id q then credit_cash e ord (cash_columns q) x else x"
  have ids: "\<And>x. pf_id (?g1 x) = pf_id x" "\<And>x. pf_id (?g2 x) = pf_id x"
    by (simp_all add: debit_cash_def credit_cash_def)
  have "portfolio_by_id (cash_moved e u ord c (cash_columns p) (cash_columns q) d) i
          = find (\<lambda>x. pf_id x = i) (map ?g2 (map ?g1 (portfolios d)))"
    by (simp add: portfolio_by_id_def cash_moved_def del: map_map)
  also have "\<dots> = map_option ?g2 (map_option ?g1 (find (\<lambda>x. pf_id x = i) (portfolios d)))"
    using find_by_id_map [of ?g2 i "map ?g1 (portfolios d)"] find_by_id_map [of ?g1 i "portfolios d"] ids
    by simp
  finally have look: "portfolio_by_id (cash_moved e u ord c (cash_columns p) (cash_columns q) d) i
          = map_option ?g2 (map_option ?g1 (portfolio_by_id d i))"
    by (simp add: portfolio_by_id_def)
  have fp: "portfolio_by_id d (pf_id p) = Some p"
    using find_by_id_distinct [OF pk p] by (simp add: portfolio_by_id_def)
  have fq: "portfolio_by_id d (pf_id q) = Some q"
    using find_by_id_distinct [OF pk q] by (simp add: portfolio_by_id_def)
  show ?thesis
  proof (cases "i = pf_id p")
    case True
    then show ?thesis
      using look fp ne by (simp add: balance_def debit_cash_def)
  next
    case np: False
    show ?thesis
    proof (cases "i = pf_id q")
      case True
      then show ?thesis
        using look fq ne by (simp add: balance_def credit_cash_def)
    next
      case nq: False
      show ?thesis
      proof (cases "portfolio_by_id d i")
        case None
        then show ?thesis using look np nq by (simp add: balance_def)
      next
        case (Some x)
        then have "pf_id x = i"
          by (auto simp: portfolio_by_id_def dest: find_in_set)
        then show ?thesis
          using look Some np nq by (simp add: balance_def)
      qed
    qed
  qed
qed


lemma share_settlement_frame:
  assumes "share_settlement e ord c d = (r, d')"
  shows "exercise_orders d' = exercise_orders d \<and> cash_transfers d' = cash_transfers d
         \<and> vesting_events d' = vesting_events d"
proof (cases "share_portfolios e ord c d")
  case (Pair x d1)
  have f1: "exercise_orders d1 = exercise_orders d \<and> cash_transfers d1 = cash_transfers d
         \<and> vesting_events d1 = vesting_events d"
    using share_portfolios_store [OF Pair] by auto
  show ?thesis
  proof (cases x)
    case (Inl err)
    then show ?thesis
      using assms Pair f1 by (simp add: share_settlement_def)
  next
    case (Inr ft)
    then obtain fromP toP where "x = Inr (fromP, toP)"
      by (cases ft) simp
    then have "transfer_shares e ord c fromP toP d1 = (r, d')"
      using assms Pair by (simp add: share_settlement_def)
    from transfer_shares_cases [OF this] show ?thesis
      using f1 by auto
  qed
qed

lemma cash_settlement_rows:
  assumes ok: "cash_settlement e u ord c d = (None, d1)"
    and pk: "distinct (map pf_id (portfolios d))"
  shows "\<exists>p q. p \<in> set (portfolios d) \<and> q \<in> set (portfolios d) \<and> pf_id p \<noteq> pf_id q
          \<and> portfolio_type p = Employee_cash \<and> pf_employee_id p = Some (eo_employee_id ord)
          \<and> portfolio_type q = Company_cash \<and> pf_employee_id q = None
          \<and> pf_company_id p = c \<and> pf_company_id q = c
          \<and> \<not> js_num (cash_balance p) < total_exercise_cost ord
          \<and> d1 = cash_moved e u ord c (cash_columns p) (cash_columns q) d"
proof -
  from cash_settlement_done [OF ok] obtain r1 r2 where
      r1: "employeeCashPortfolio (eo_employee_id ord) (select_cash_rows c d) = Some r1"
    and r2: "companyCashPortfolio c (select_cash_rows c d) = Some r2"
    and enough: "\<not> js_num (cr_cash_balance r1) < total_exercise_cost ord"
    and d1: "d1 = cash_moved e u ord c r1 r2 d"
    by blast
  from employeeCashPortfolio_row [OF r1] obtain p where
      p: "p \<in> set (portfolios d)" "r1 = cash_columns p" "pf_company_id p = c"
         "portfolio_type p = Employee_cash" "pf_employee_id p = Some (eo_employee_id ord)"
    by blast
  from companyCashPortfolio_row [OF r2] obtain q where
      q: "q \<in> set (portfolios d)" "r2 = cash_columns q" "pf_company_id q = c"
         "portfolio_type q = Company_cash" "pf_employee_id q = None"
    by blast
  have "p \<noteq> q"
    using p(4) q(4) by auto
  then have "pf_id p \<noteq> pf_id q"
    using pk p(1) q(1) by (meson distinct_map inj_onD)
  then show ?thesis
    using p q enough d1 by auto
qed

lemma holdings_cong: "portfolios d = portfolios d' \<Longrightarrow> holdings d i = holdings d' i"
  by (simp add: holdings_def portfolio_by_id_def)

lemma holdings_update_portfolios:
  assumes "\<And>p. pf_id (f p) = pf_id p"
    and "\<And>p. total_shares (f p) = total_shares p"
    and "\<And>p. available_shares (f p) = available_shares p"
    and "\<And>p. locked_shares (f p) = locked_shares p"
  shows "holdings (update_portfolios i f d) j = holdings d j"
proof -
  let ?g = "\<lambda>p. if pf_id p = i then f p else p"
  have "portfolio_by_id (update_portfolios i f d) j = map_option ?g (portfolio_by_id d j)"
    unfolding portfolio_by_id_def update_portfolios_fields
    by (rule find_by_id_map) (simp add: assms)
  then show ?thesis
    by (cases "portfolio_by_id d j") (simp_all add: holdings_def assms)
qed

lemma holdings_cash_moved: "holdings (cash_moved e u ord c r1 r2 d) j = holdings d j"
proof -
  let ?d1 = "update_portfolios (cr_id r1) (debit_cash e ord r1) d"
  let ?d2 = "update_portfolios (cr_id r2) (credit_cash e ord r2) ?d1"
  have "holdings (cash_moved e u ord c r1 r2 d) j = holdings ?d2 j"
    by (rule holdings_cong) (simp add: cash_moved_def)
  also have "\<dots> = holdings ?d1 j"
    by (rule holdings_update_portfolios) (simp_all add: credit_cash_def)
  also have "\<dots> = holdings d j"
    by (rule holdings_update_portfolios) (simp_all add: debit_cash_def)
  finally show ?thesis .
qed

lemma ids_update_portfolios:
  assumes "\<And>p. pf_id (f p) = pf_id p"
  shows "map pf_id (portfolios (update_portfolios i f d)) = map pf_id (portfolios d)"
proof -
  have "map (pf_id \<circ> (\<lambda>p. if pf_id p = i then f p else p)) (portfolios d)
          = map pf_id (portfolios d)"
    by (rule map_cong) (simp_all add: assms)
  then show ?thesis
    by simp
qed

lemma cash_moved_frame [simp]:
  "exercise_orders (cash_moved e u ord c r1 r2 d) = exercise_orders d"
  "share_transfers (cash_moved e u ord c r1 r2 d) = share_transfers d"
  "vesting_events (cash_moved e u ord c r1 r2 d) = vesting_events d"
  "cash_transfers (cash_moved e u ord c r1 r2 d) = cash_transfers d @ [settlement_record e u ord c r1 r2]"
  by (simp_all add: cash_moved_def)

lemma cash_moved_ids:
  "map pf_id (portfolios (cash_moved e u ord c r1 r2 d)) = map pf_id (portfolios d)"
proof -
  let ?d1 = "update_portfolios (cr_id r1) (debit_cash e ord r1) d"
  have "map pf_id (portfolios (cash_moved e u ord c r1 r2 d))
          = map pf_id (portfolios (update_portfolios (cr_id r2) (credit_cash e ord r2) ?d1))"
    by (simp add: cash_moved_def)
  also have "\<dots> = map pf_id (portfolios ?d1)"
    by (rule ids_update_portfolios) (simp add: credit_cash_def)
  also have "\<dots> = map pf_id (portfolios d)"
    by (rule ids_update_portfolios) (simp add: debit_cash_def)
  finally show ?thesis .
qed

lemma cash_settlement_errors:
  assumes "cash_settlement e u ord c d = (Some err, d1)"
  shows "err \<in> {Store_error Select_cash_portfolios, Employee_cash_portfolio_not_found,
                 Company_cash_portfolio_not_found, Insufficient_cash_balance,
                 Store_error Update_employee_cash, Store_error Update_company_cash,
                 Store_error Insert_cash_transfer}"
  using assms
  by (auto simp: cash_settlement_def Let_def split: option.splits if_splits)

lemma share_settlement_early:
  assumes run: "share_settlement e ord c d = (Some err, d')"
    and early: "err \<in> {Company_reserved_portfolio_not_found, Insufficient_shares,
                        Store_error Select_share_portfolios, Store_error Insert_portfolio,
                        Store_error Update_from_portfolio}"
  shows "d' = d \<or> (\<exists>np. d' = d\<lparr>portfolios := portfolios d @ [np]\<rparr> \<and> zero_portfolio np
                        \<and> pf_id np \<notin> pf_id ` set (portfolios d))"
proof (cases "share_portfolios e ord c d")
  case (Pair x d1)
  note store = share_portfolios_store [OF Pair]
  show ?thesis
  proof (cases x)
    case (Inl a)
    then have "d' = d1"
      using run Pair by (simp add: share_settlement_def)
    then show ?thesis
      using store by simp
  next
    case (Inr ft)
    then obtain fromP toP where "x = Inr (fromP, toP)"
      by (cases ft) simp
    then have "transfer_shares e ord c fromP toP d1 = (Some err, d')"
      using run Pair by (simp add: share_settlement_def)
    from transfer_shares_cases [OF this] have "d' = d1"
      using early by auto
    then show ?thesis
      using store by simp
  qed
qed

lemma settle_Some:
  assumes "settle e u ord c d = (Some err, d')"
  shows "cash_settlement e u ord c d = (Some err, d')
       \<or> (\<exists>d1. cash_settlement e u ord c d = (None, d1)
              \<and> (share_settlement e ord c d1 = (Some err, d')
                  \<or> (\<exists>d2. share_settlement e ord c d1 = (None, d2)
                         \<and> err \<in> {Store_error Update_order, Store_error Update_event}
                         \<and> portfolios d' = portfolios d2
                         \<and> cash_transfers d' = cash_transfers d2)))"
  using assms
  by (auto simp: settle_def and_then_Some and_then_None order_processed_def event_exercised_def
           split: if_splits)

lemma settlement_record_fields [simp]:
  "ct_transfer_type (settlement_record e u ord c r1 r2) = Exercise_settlement"
  "ct_status (settlement_record e u ord c r1 r2) = Ct_processed"
  "exercise_order_id (settlement_record e u ord c r1 r2) = Some (eo_id ord)"
  "amount (settlement_record e u ord c r1 r2) = total_exercise_cost ord"
  "ct_from_portfolio_id (settlement_record e u ord c r1 r2) = Some (cr_id r1)"
  "ct_to_portfolio_id (settlement_record e u ord c r1 r2) = Some (cr_id r2)"
  by (simp_all add: settlement_record_def)

lemma holdings_append:
  assumes "i \<in> pf_id ` set (portfolios d)"
  shows "holdings (d\<lparr>portfolios := portfolios d @ [np]\<rparr>) i = holdings d i"
  using find_by_id_append [OF assms] by (simp add: holdings_def portfolio_by_id_def)

lemma cash_settlement_ignores_status:
  "cash_settlement e u (ord\<lparr>eo_status := s\<rparr>) c d = cash_settlement e u ord c d"
  by (simp add: cash_settlement_def settlement_record_def
           cong: option.case_cong if_cong)

lemma share_settlement_ignores_status:
  "share_settlement e (ord\<lparr>eo_status := s\<rparr>) c d = share_settlement e ord c d"
  by (simp add: share_settlement_def share_portfolios_def transfer_shares_def exercise_record_def
           cong: option.case_cong if_cong prod.case_cong sum.case_cong)

lemma settle_ignores_status:
  "settle e u (ord\<lparr>eo_status := s\<rparr>) c d = settle e u ord c d"
proof -
  have "share_settlement e (ord\<lparr>eo_status := s\<rparr>) c = share_settlement e ord c"
    by (rule ext) (rule share_settlement_ignores_status)
  moreover have "order_processed e u (ord\<lparr>eo_status := s\<rparr>) = order_processed e u ord"
    by (rule ext) (simp add: order_processed_def)
  moreover have "event_exercised e (ord\<lparr>eo_status := s\<rparr>) = event_exercised e ord"
    by (rule ext) (simp add: event_exercised_def)
  ultimately show ?thesis
    by (simp add: settle_def cash_settlement_ignores_status)
qed

lemma handleProcess_ignores_status:
  "handleProcess e (ord\<lparr>eo_status := s\<rparr>) d = handleProcess e ord d"
  by (simp add: handleProcess_def settle_ignores_status
           cong: option.case_cong if_cong prod.case_cong bool.case_cong)

lemma handleConfirmExercise_taken:
  assumes "ve_id ev \<in> set (map vesting_event_id (exercise_orders d))"
  shows "fst (handleConfirmExercise e (Some ev) cp d) \<noteq> Done
       \<and> snd (handleConfirmExercise e (Some ev) cp d) = d"
  using assms
  by (auto simp: handleConfirmExercise_def insert_order_def new_order_def Let_def
           split: option.splits)

subsection \<open>Conservation of cash\<close>



subsection \<open>A failure after the cash has moved\<close>



subsection \<open>Processing an order a second time\<close>




subsection \<open>Conservation of shares\<close>

text \<open>
  A vested portfolio that the query of step 2 finds comes without its total: whatever
  the store holds, the credit of step 3 writes the transferred quantity as the new total.
\<close>

lemma queried_row_has_no_total_shares:
  assumes "toPortfolio c eid (select_share_rows c d) = Some r"
  shows "sr_total_shares r = None"
  using find_map_columns [OF assms [unfolded toPortfolio_def select_share_rows_def]]
  by (auto simp: share_columns_def)

lemma credit_of_queried_row:
  assumes "toPortfolio c eid (select_share_rows c d) = Some r"
  shows "total_shares (credit_shares e ord r p) = Some (shares_to_exercise ord)"
  using queried_row_has_no_total_shares [OF assms] by (simp add: credit_shares_def)

text \<open>
  Claim C3 asks that a successful \<^verbatim>\<open>process\<close> credits \<^verbatim>\<open>total_shares\<close> and
  \<^verbatim>\<open>available_shares\<close> of the employee's vested portfolio by the quantity it takes from
  the company's reserved portfolio. The row \<^verbatim>\<open>toPortfolio\<close> comes from a query that does
  not read \<^verbatim>\<open>total_shares\<close>, so \<^verbatim>\<open>(toPortfolio.total_shares || 0) + sharesToTransfer\<close>
  is the quantity transferred, whatever the portfolio held. Here the employee holds 500
  vested shares and exercises 100: the company's available shares go from 10000 to 9900,
  the employee's available shares from 500 to 600, and the employee's total shares from
  500 to 100 instead of 600.
\<close>

theorem process_overwrites_total_shares:
  "handleProcess (operator_at 1) order0 ledger0 = (Done, ledger1)
   \<and> shares_to_exercise order0 = 100
   \<and> holdings ledger0 ''p-res'' = Some (Some 10000, Some 10000, Some 0)
   \<and> holdings ledger1 ''p-res'' = Some (Some 10000, Some 9900, Some 0)
   \<and> holdings ledger0 ''p-ev'' = Some (Some 500, Some 500, Some 0)
   \<and> holdings ledger1 ''p-ev'' = Some (Some 100, Some 600, Some 0)"
proof -
  have ran: "fst (handleProcess (operator_at 1) order0 ledger0) = Done"
    by (simp add: model_defs ledger_defs Let_def decimal.simps)
  then have ok: "handleProcess (operator_at 1) order0 ledger0 = (Done, ledger1)"
    unfolding ledger1_def by (metis prod.collapse)
  have before: "shares_to_exercise order0 = 100"
      "holdings ledger0 ''p-res'' = Some (Some 10000, Some 10000, Some 0)"
      "holdings ledger0 ''p-ev'' = Some (Some 500, Some 500, Some 0)"
    by (simp_all add: observation_defs ledger_defs)
  have after: "holdings ledger1 ''p-res'' = Some (Some 10000, Some 9900, Some 0)"
      "holdings ledger1 ''p-ev'' = Some (Some 100, Some 600, Some 0)"
    by (simp_all add: observation_defs model_defs ledger_defs Let_def decimal.simps)
  show ?thesis
    using ok before after by simp
qed

subsection \<open>Approving an order\<close>




subsection \<open>Creating an order without the funds\<close>




subsection \<open>A new order after a rejection\<close>

text \<open>
  Claim C7 says that once an order is rejected a new order for the same vesting event can
  be created. It does not hold: the rejected order keeps its row, \<^verbatim>\<open>vesting_event_id\<close> is
  unique in \<^verbatim>\<open>exercise_orders\<close>, and the insert of the second order is refused.
\<close>

theorem resubmit_after_reject_counterexample:
  "handleReject (operator_at 1) (Some pending_order0) [110, 111] pending_ledger
     = (Done, rejected_ledger)
   \<and> map eo_status (exercise_orders rejected_ledger) = [Rejected]
   \<and> map ve_status (vesting_events rejected_ledger) = [Pending_exercise]
   \<and> handleConfirmExercise (employee_at 2) (Some event0) (Some (cash_loaded 2000)) rejected_ledger
       = (Failed (Store_error Insert_order), rejected_ledger)"
proof -
  have ran: "fst (handleReject (operator_at 1) (Some pending_order0) [110, 111] pending_ledger) = Done"
    by (simp add: model_defs ledger_defs Let_def trim_def js_whitespace_def)
  then have rej: "handleReject (operator_at 1) (Some pending_order0) [110, 111] pending_ledger
     = (Done, rejected_ledger)"
    unfolding rejected_ledger_def by (metis prod.collapse)
  have after: "map eo_status (exercise_orders rejected_ledger) = [Rejected]"
      "map ve_status (vesting_events rejected_ledger) = [Pending_exercise]"
    by (simp_all add: model_defs ledger_defs Let_def trim_def js_whitespace_def)
  have again: "fst (handleConfirmExercise (employee_at 2) (Some event0) (Some (cash_loaded 2000))
                      rejected_ledger) = Failed (Store_error Insert_order)"
      "snd (handleConfirmExercise (employee_at 2) (Some event0) (Some (cash_loaded 2000))
                      rejected_ledger) = rejected_ledger"
    by (simp_all add: model_defs ledger_defs Let_def trim_def js_whitespace_def decimal.simps)
  then have "handleConfirmExercise (employee_at 2) (Some event0) (Some (cash_loaded 2000)) rejected_ledger
       = (Failed (Store_error Insert_order), rejected_ledger)"
    by (metis prod.collapse)
  then show ?thesis
    using rej after by simp
qed

text \<open>
  Claim C7, amended. After \<^verbatim>\<open>handleReject\<close> succeeds on a stored order, the rows with its
  identifier are rejected with the given reason and, when the update of the vesting event
  went through, the event is back to pending exercise; but no later
  \<^verbatim>\<open>handleConfirmExercise\<close> for that vesting event succeeds, whoever calls it and with
  whatever cash: the store is left unchanged, because the unique constraint counts the
  rejected order.
\<close>

theorem rejected_order_blocks_resubmission:
  assumes rej: "handleReject e (Some ord) reason d = (Done, d1)"
    and stored: "ord \<in> set (exercise_orders d)"
    and same: "vesting_event_id ord = ve_id ev"
  shows "(\<forall>x \<in> set (exercise_orders d1).
            eo_id x = eo_id ord \<longrightarrow> eo_status x = Rejected \<and> rejection_reason x = Some reason)
       \<and> (\<not> store_fails e Update_event \<longrightarrow>
            (\<forall>v \<in> set (vesting_events d1). ve_id v = ve_id ev \<longrightarrow> ve_status v = Pending_exercise))
       \<and> fst (handleConfirmExercise e' (Some ev) cp d1) \<noteq> Done
       \<and> snd (handleConfirmExercise e' (Some ev) cp d1) = d1"
proof -
  let ?f = "\<lambda>x. x\<lparr>eo_status := Rejected, rejection_reason := Some reason,
                    eo_updated_at := Some (now e)\<rparr>"
  let ?d = "update_orders (eo_id ord) ?f d"
  have d1: "d1 = (if store_fails e Update_event then ?d
                  else update_events (vesting_event_id ord)
                         (\<lambda>v. v\<lparr>ve_status := Pending_exercise\<rparr>) ?d)"
    using rej by (auto simp: handleReject_def Let_def split: if_splits)
  have orders: "exercise_orders d1 = map (\<lambda>x. if eo_id x = eo_id ord then ?f x else x) (exercise_orders d)"
    using d1 by simp
  have rejected: "\<forall>x \<in> set (exercise_orders d1).
            eo_id x = eo_id ord \<longrightarrow> eo_status x = Rejected \<and> rejection_reason x = Some reason"
    unfolding orders by auto
  have event: "\<not> store_fails e Update_event \<longrightarrow>
            (\<forall>v \<in> set (vesting_events d1). ve_id v = ve_id ev \<longrightarrow> ve_status v = Pending_exercise)"
    using d1 same by auto
  have "map vesting_event_id (exercise_orders d1) = map vesting_event_id (exercise_orders d)"
    unfolding orders by (induction "exercise_orders d") auto
  then have "ve_id ev \<in> set (map vesting_event_id (exercise_orders d1))"
    using stored same by force
  from handleConfirmExercise_taken [OF this] rejected event show ?thesis
    by blast
qed

theorem rejected_order_blocks_resubmission_witness:
  "handleReject (operator_at 1) (Some pending_order0) [110, 111] pending_ledger
     = (Done, rejected_ledger)
   \<and> pending_order0 \<in> set (exercise_orders pending_ledger)
   \<and> vesting_event_id pending_order0 = ve_id event0
   \<and> fst (handleConfirmExercise (employee_at 2) (Some event0) (Some (cash_loaded 2000))
             rejected_ledger) \<noteq> Done
   \<and> snd (handleConfirmExercise (employee_at 2) (Some event0) (Some (cash_loaded 2000))
             rejected_ledger) = rejected_ledger"
proof -
  have ran: "fst (handleReject (operator_at 1) (Some pending_order0) [110, 111] pending_ledger) = Done"
    by (simp add: model_defs ledger_defs Let_def trim_def js_whitespace_def)
  then have rej: "handleReject (operator_at 1) (Some pending_order0) [110, 111] pending_ledger
     = (Done, rejected_ledger)"
    unfolding rejected_ledger_def by (metis prod.collapse)
  have stored: "pending_order0 \<in> set (exercise_orders pending_ledger)"
    by (simp add: ledger_defs)
  have same: "vesting_event_id pending_order0 = ve_id event0"
    by (simp add: ledger_defs)
  show ?thesis
    using rej stored same
      rejected_order_blocks_resubmission [OF rej stored same, of "employee_at 2"
        "Some (cash_loaded 2000)"]
    by simp
qed

subsection \<open>A vesting event without an exercise price\<close>

text \<open>
  Claim C10. For a vesting event whose exercise price is \<^verbatim>\<open>null\<close> the price is read as
  \<open>0\<close>: with a loaded cash portfolio whose balance is not negative (the invariant of a
  portfolio), \<^verbatim>\<open>handleConfirmExercise\<close> never stops at the funds check, whatever the
  balance; and when an employee is signed in and the store accepts the insert (the event
  has no order yet, vests a positive number of shares, and the identifier and the number
  of the order are new), it
  succeeds and records a pending order with price \<open>0\<close> and total cost \<open>0\<close>.
\<close>

theorem unpriced_event_order_created:
  assumes unpriced: "exercise_price ev = None"
    and nonneg: "0 \<le> js_num (lp_cash_balance cp)"
  shows "fst (handleConfirmExercise e (Some ev) (Some cp) d) \<noteq> Failed Insufficient_funds
       \<and> (auth_user e = Some u \<and> select_employee_of_user e u d = Some emp
            \<and> \<not> store_fails e Insert_order \<and> 0 < shares_to_vest ev
            \<and> ve_id ev \<notin> set (map vesting_event_id (exercise_orders d))
            \<and> new_id e \<notin> set (map eo_id (exercise_orders d))
            \<and> order_number (new_order e emp ev cp 0) \<notin> set (map order_number (exercise_orders d))
          \<longrightarrow> (\<exists>x d'. handleConfirmExercise e (Some ev) (Some cp) d = (Done, d')
                  \<and> exercise_orders d' = exercise_orders d @ [x]
                  \<and> exercise_price_per_share x = 0 \<and> total_exercise_cost x = 0
                  \<and> shares_to_exercise x = shares_to_vest ev \<and> vesting_event_id x = ve_id ev
                  \<and> eo_status x = Pending))"
proof (intro conjI impI)
  show "fst (handleConfirmExercise e (Some ev) (Some cp) d) \<noteq> Failed Insufficient_funds"
    using unpriced nonneg
    by (simp add: handleConfirmExercise_def Let_def split: option.splits)
next
  assume pre: "auth_user e = Some u \<and> select_employee_of_user e u d = Some emp
            \<and> \<not> store_fails e Insert_order \<and> 0 < shares_to_vest ev
            \<and> ve_id ev \<notin> set (map vesting_event_id (exercise_orders d))
            \<and> new_id e \<notin> set (map eo_id (exercise_orders d))
            \<and> order_number (new_order e emp ev cp 0) \<notin> set (map order_number (exercise_orders d))"
  let ?x = "new_order e emp ev cp 0"
  let ?d1 = "d\<lparr>exercise_orders := exercise_orders d @ [?x]\<rparr>"
  let ?d' = "if store_fails e Update_event then ?d1
             else update_events (ve_id ev) (\<lambda>v. v\<lparr>ve_status := Pending_exercise\<rparr>) ?d1"
  have ins: "insert_order e ?x d = Some ?d1"
    using pre by (simp add: insert_order_def new_order_def)
  have run: "handleConfirmExercise e (Some ev) (Some cp) d = (Done, ?d')"
    using pre unpriced nonneg ins by (simp add: handleConfirmExercise_def Let_def)
  have "exercise_orders ?d' = exercise_orders d @ [?x]"
    by simp
  moreover have "exercise_price_per_share ?x = 0" "total_exercise_cost ?x = 0"
      "shares_to_exercise ?x = shares_to_vest ev" "vesting_event_id ?x = ve_id ev"
      "eo_status ?x = Pending"
    using unpriced by (simp_all add: new_order_def)
  ultimately show "\<exists>x d'. handleConfirmExercise e (Some ev) (Some cp) d = (Done, d')
                  \<and> exercise_orders d' = exercise_orders d @ [x]
                  \<and> exercise_price_per_share x = 0 \<and> total_exercise_cost x = 0
                  \<and> shares_to_exercise x = shares_to_vest ev \<and> vesting_event_id x = ve_id ev
                  \<and> eo_status x = Pending"
    using run by blast
qed

theorem unpriced_event_order_created_witness:
  "exercise_price unpriced_event = None \<and> 0 \<le> js_num (lp_cash_balance (cash_loaded 0))
   \<and> fst (handleConfirmExercise (employee_at 1) (Some unpriced_event) (Some (cash_loaded 0))
             fresh_ledger) = Done
   \<and> map exercise_price_per_share
        (exercise_orders (snd (handleConfirmExercise (employee_at 1) (Some unpriced_event)
                                 (Some (cash_loaded 0)) fresh_ledger))) = [0]
   \<and> map total_exercise_cost
        (exercise_orders (snd (handleConfirmExercise (employee_at 1) (Some unpriced_event)
                                 (Some (cash_loaded 0)) fresh_ledger))) = [0]
   \<and> (\<exists>x d'. handleConfirmExercise (employee_at 1) (Some unpriced_event) (Some (cash_loaded 0))
                 fresh_ledger = (Done, d')
          \<and> exercise_orders d' = exercise_orders fresh_ledger @ [x]
          \<and> exercise_price_per_share x = 0 \<and> total_exercise_cost x = 0
          \<and> shares_to_exercise x = shares_to_vest unpriced_event
          \<and> vesting_event_id x = ve_id unpriced_event
          \<and> eo_status x = Pending)"
proof -
  have unpriced: "exercise_price unpriced_event = None"
    by (simp add: ledger_defs)
  have nonneg: "0 \<le> js_num (lp_cash_balance (cash_loaded 0))"
    by (simp add: ledger_defs)
  have pre: "auth_user (employee_at 1) = Some ''u-e1''
      \<and> select_employee_of_user (employee_at 1) ''u-e1'' fresh_ledger
          = Some \<lparr>em_id = ''e1'', em_company_id = ''c1'', em_user_id = Some ''u-e1'',
                  employee_number = Some ''E001''\<rparr>
      \<and> \<not> store_fails (employee_at 1) Insert_order \<and> 0 < shares_to_vest unpriced_event
      \<and> ve_id unpriced_event \<notin> set (map vesting_event_id (exercise_orders fresh_ledger))
      \<and> new_id (employee_at 1) \<notin> set (map eo_id (exercise_orders fresh_ledger))
      \<and> order_number (new_order (employee_at 1)
                         \<lparr>em_id = ''e1'', em_company_id = ''c1'', em_user_id = Some ''u-e1'',
                           employee_number = Some ''E001''\<rparr>
                         unpriced_event (cash_loaded 0) 0)
          \<notin> set (map order_number (exercise_orders fresh_ledger))"
    by (simp add: model_defs ledger_defs Let_def)
  have ran: "fst (handleConfirmExercise (employee_at 1) (Some unpriced_event) (Some (cash_loaded 0))
             fresh_ledger) = Done"
     "map exercise_price_per_share
        (exercise_orders (snd (handleConfirmExercise (employee_at 1) (Some unpriced_event)
                                 (Some (cash_loaded 0)) fresh_ledger))) = [0]"
     "map total_exercise_cost
        (exercise_orders (snd (handleConfirmExercise (employee_at 1) (Some unpriced_event)
                                 (Some (cash_loaded 0)) fresh_ledger))) = [0]"
    by (simp_all add: model_defs ledger_defs Let_def decimal.simps)
  show ?thesis
    using unpriced nonneg ran pre
      unpriced_event_order_created [OF unpriced nonneg, of "employee_at 1" fresh_ledger "''u-e1''"
        "\<lparr>em_id = ''e1'', em_company_id = ''c1'', em_user_id = Some ''u-e1'',
          employee_number = Some ''E001''\<rparr>"]
    by blast
qed

subsection \<open>Rejection without a reason\<close>

text \<open>
  Claim C8. Rejecting with an empty or white-space-only reason stops with the validation
  message and changes nothing in the store: the order keeps its status and its (absent)
  rejection reason, and the vesting event is untouched.
\<close>

theorem reject_blank_reason_noop:
  assumes "\<forall>c \<in> set reason. js_whitespace c"
  shows "handleReject e (Some ord) reason d = (Failed Rejection_reason_required, d)"
  using assms by (simp add: handleReject_def trim_whitespace_only)

theorem reject_blank_reason_noop_witness:
  "js_whitespace 32 \<and> js_whitespace 9 \<and> js_whitespace 160
   \<and> handleReject (operator_at 1) (Some order0) [32, 9, 160] ledger0
       = (Failed Rejection_reason_required, ledger0)"
proof -
  have blank: "\<forall>c \<in> set [32, 9, 160]. js_whitespace c"
    by (simp add: js_whitespace_def)
  show ?thesis
    using blank reject_blank_reason_noop [OF blank, of "operator_at 1" order0 ledger0] by simp
qed

end
